theory Spec2Isabelle
  imports Main "HOL-Library.Word"
begin

section \<open>Oracle query commands (x/oracle/client/cli/query.go)\<close>

text \<open>
  The file builds seven cobra sub-commands. Each one declares a positional-argument
  validator (\<open>Args\<close>) and a closure (\<open>RunE\<close>) that acquires the client query context,
  optionally decodes a validator address, issues one gRPC query and prints the response.
  The collaborators (context acquisition, the bech32 codec of the SDK, the gRPC query
  client, the printer) are not part of the file: they are parameters of the model, and
  every call to one of them is recorded, in order, in a trace.
\<close>

subsection \<open>Data\<close>

text \<open>A Go \<open>error\<close> value coming out of a collaborator, identified by its message.\<close>

type_synonym go_error = string

text \<open>\<open>sdk.ValAddress\<close> is a byte slice.\<close>

type_synonym byte = "8 word"

datatype val_address = ValAddress "byte list"

text \<open>The response messages are opaque to the commands: they are only handed to the printer.\<close>

type_synonym response = string

text \<open>The methods of the generated query client that the file calls.\<close>

datatype rpc =
    ExchangeRates
  | ExchangeRate
  | Actives
  | Params
  | FeederDelegation
  | MissCounter
  | AggregatePrevotes
  | AggregatePrevote
  | AggregateVotes
  | AggregateVote

text \<open>
  The request messages the file builds. A constructor without argument is the empty
  struct literal (\<open>&types.QueryExchangeRatesRequest{}\<close>); the string argument is the one
  field that the literal sets (\<open>Denom\<close>, respectively \<open>ValidatorAddr\<close>).
\<close>

datatype request =
    QueryExchangeRatesRequest
  | QueryExchangeRateRequest string
  | QueryActivesRequest
  | QueryParamsRequest
  | QueryFeederDelegationRequest string
  | QueryMissCounterRequest string
  | QueryAggregatePrevotesRequest
  | QueryAggregatePrevoteRequest string
  | QueryAggregateVotesRequest
  | QueryAggregateVoteRequest string

text \<open>The positional-argument validators of cobra that the commands declare.\<close>

datatype positional_args = NoArgs | ExactArgs nat | RangeArgs nat nat

text \<open>
  What a command invocation ends with when it does not end with \<open>nil\<close>. The constructor
  records where the error was produced (the validator of the argument count, the context
  acquisition, the address decoder, the remote call, the printer); its argument is the
  collaborator's own error value. \<open>ArgumentError\<close> carries the violated validator and the
  number of arguments received. \<open>IndexOutOfRange\<close> is the run-time panic of \<open>args[0]\<close> on an
  empty slice.
\<close>

datatype error =
    ArgumentError positional_args nat
  | ContextError go_error
  | DecodeError go_error
  | ServiceError go_error
  | PrintError go_error
  | IndexOutOfRange

text \<open>
  \<open>client.Context\<close> as the commands use it: the query client made from it
  (\<open>types.NewQueryClient(clientCtx)\<close>), and its printer \<open>PrintProto\<close>.
\<close>

record client_ctx =
  invoke :: "rpc \<Rightarrow> request \<Rightarrow> go_error + response"
  printProto :: "response \<Rightarrow> go_error option"

text \<open>
  The environment of an invocation: the result of \<open>client.GetClientQueryContext(cmd)\<close>,
  the decoder \<open>sdk.ValAddressFromBech32\<close>, and the stringer \<open>String()\<close> of \<open>sdk.ValAddress\<close>.
\<close>

record env =
  getClientQueryContext :: "go_error + client_ctx"
  valAddressFromBech32 :: "string \<Rightarrow> go_error + val_address"
  valAddressString :: "val_address \<Rightarrow> string"

text \<open>The calls to the collaborators, as they happen.\<close>

datatype event =
    EvGetClientQueryContext
  | EvValAddressFromBech32 string
  | EvInvoke rpc request
  | EvPrintProto response

type_synonym trace = "event list"

subsection \<open>Collaborator calls, recorded\<close>

definition GetClientQueryContext :: "env \<Rightarrow> trace \<Rightarrow> (go_error + client_ctx) \<times> trace" where
  "GetClientQueryContext e tr = (getClientQueryContext e, tr @ [EvGetClientQueryContext])"

definition ValAddressFromBech32 :: "env \<Rightarrow> string \<Rightarrow> trace \<Rightarrow> (go_error + val_address) \<times> trace" where
  "ValAddressFromBech32 e s tr = (valAddressFromBech32 e s, tr @ [EvValAddressFromBech32 s])"

definition Invoke :: "client_ctx \<Rightarrow> rpc \<Rightarrow> request \<Rightarrow> trace \<Rightarrow> (go_error + response) \<times> trace" where
  "Invoke c m r tr = (invoke c m r, tr @ [EvInvoke m r])"

text \<open>\<open>return clientCtx.PrintProto(res)\<close>: the printer's error, or \<open>nil\<close>.\<close>

definition PrintProto :: "client_ctx \<Rightarrow> response \<Rightarrow> trace \<Rightarrow> error option \<times> trace" where
  "PrintProto c res tr =
     (case printProto c res of
        None \<Rightarrow> (None, tr @ [EvPrintProto res])
      | Some err \<Rightarrow> (Some (PrintError err), tr @ [EvPrintProto res]))"

subsection \<open>The closures\<close>

text \<open>\<open>RunE\<close> of \<open>GetCmdQueryExchangeRates\<close> (lines 55 to 81).\<close>

definition ExchangeRates_RunE :: "env \<Rightarrow> string list \<Rightarrow> trace \<Rightarrow> error option \<times> trace" where
  "ExchangeRates_RunE e args tr0 =
     (case GetClientQueryContext e tr0 of
        (Inl err, tr1) \<Rightarrow> (Some (ContextError err), tr1)
      | (Inr clientCtx, tr1) \<Rightarrow>
          (case args of
             [] \<Rightarrow>
               (case Invoke clientCtx ExchangeRates QueryExchangeRatesRequest tr1 of
                  (Inl err, tr2) \<Rightarrow> (Some (ServiceError err), tr2)
                | (Inr res, tr2) \<Rightarrow> PrintProto clientCtx res tr2)
           | denom # _ \<Rightarrow>
               (case Invoke clientCtx ExchangeRate (QueryExchangeRateRequest denom) tr1 of
                  (Inl err, tr2) \<Rightarrow> (Some (ServiceError err), tr2)
                | (Inr res, tr2) \<Rightarrow> PrintProto clientCtx res tr2)))"

text \<open>\<open>RunE\<close> of \<open>GetCmdQueryActives\<close> (lines 99 to 112). The arguments are not read.\<close>

definition Actives_RunE :: "env \<Rightarrow> string list \<Rightarrow> trace \<Rightarrow> error option \<times> trace" where
  "Actives_RunE e args tr0 =
     (case GetClientQueryContext e tr0 of
        (Inl err, tr1) \<Rightarrow> (Some (ContextError err), tr1)
      | (Inr clientCtx, tr1) \<Rightarrow>
          (case Invoke clientCtx Actives QueryActivesRequest tr1 of
             (Inl err, tr2) \<Rightarrow> (Some (ServiceError err), tr2)
           | (Inr res, tr2) \<Rightarrow> PrintProto clientCtx res tr2))"

text \<open>\<open>RunE\<close> of \<open>GetCmdQueryParams\<close> (lines 125 to 138). The arguments are not read.\<close>

definition Params_RunE :: "env \<Rightarrow> string list \<Rightarrow> trace \<Rightarrow> error option \<times> trace" where
  "Params_RunE e args tr0 =
     (case GetClientQueryContext e tr0 of
        (Inl err, tr1) \<Rightarrow> (Some (ContextError err), tr1)
      | (Inr clientCtx, tr1) \<Rightarrow>
          (case Invoke clientCtx Params QueryParamsRequest tr1 of
             (Inl err, tr2) \<Rightarrow> (Some (ServiceError err), tr2)
           | (Inr res, tr2) \<Rightarrow> PrintProto clientCtx res tr2))"

text \<open>
  \<open>RunE\<close> of \<open>GetCmdQueryFeederDelegation\<close> (lines 156 to 178). \<open>args[0]\<close> is read without
  a length check, after the context was acquired.
\<close>

definition FeederDelegation_RunE :: "env \<Rightarrow> string list \<Rightarrow> trace \<Rightarrow> error option \<times> trace" where
  "FeederDelegation_RunE e args tr0 =
     (case GetClientQueryContext e tr0 of
        (Inl err, tr1) \<Rightarrow> (Some (ContextError err), tr1)
      | (Inr clientCtx, tr1) \<Rightarrow>
          (case args of
             [] \<Rightarrow> (Some IndexOutOfRange, tr1)
           | valString # _ \<Rightarrow>
               (case ValAddressFromBech32 e valString tr1 of
                  (Inl err, tr2) \<Rightarrow> (Some (DecodeError err), tr2)
                | (Inr validator, tr2) \<Rightarrow>
                    (case Invoke clientCtx FeederDelegation
                            (QueryFeederDelegationRequest (valAddressString e validator)) tr2 of
                       (Inl err, tr3) \<Rightarrow> (Some (ServiceError err), tr3)
                     | (Inr res, tr3) \<Rightarrow> PrintProto clientCtx res tr3))))"

text \<open>\<open>RunE\<close> of \<open>GetCmdQueryMissCounter\<close> (lines 196 to 218).\<close>

definition MissCounter_RunE :: "env \<Rightarrow> string list \<Rightarrow> trace \<Rightarrow> error option \<times> trace" where
  "MissCounter_RunE e args tr0 =
     (case GetClientQueryContext e tr0 of
        (Inl err, tr1) \<Rightarrow> (Some (ContextError err), tr1)
      | (Inr clientCtx, tr1) \<Rightarrow>
          (case args of
             [] \<Rightarrow> (Some IndexOutOfRange, tr1)
           | valString # _ \<Rightarrow>
               (case ValAddressFromBech32 e valString tr1 of
                  (Inl err, tr2) \<Rightarrow> (Some (DecodeError err), tr2)
                | (Inr validator, tr2) \<Rightarrow>
                    (case Invoke clientCtx MissCounter
                            (QueryMissCounterRequest (valAddressString e validator)) tr2 of
                       (Inl err, tr3) \<Rightarrow> (Some (ServiceError err), tr3)
                     | (Inr res, tr3) \<Rightarrow> PrintProto clientCtx res tr3))))"

text \<open>\<open>RunE\<close> of \<open>GetCmdQueryAggregatePrevote\<close> (lines 240 to 274).\<close>

definition AggregatePrevote_RunE :: "env \<Rightarrow> string list \<Rightarrow> trace \<Rightarrow> error option \<times> trace" where
  "AggregatePrevote_RunE e args tr0 =
     (case GetClientQueryContext e tr0 of
        (Inl err, tr1) \<Rightarrow> (Some (ContextError err), tr1)
      | (Inr clientCtx, tr1) \<Rightarrow>
          (case args of
             [] \<Rightarrow>
               (case Invoke clientCtx AggregatePrevotes QueryAggregatePrevotesRequest tr1 of
                  (Inl err, tr2) \<Rightarrow> (Some (ServiceError err), tr2)
                | (Inr res, tr2) \<Rightarrow> PrintProto clientCtx res tr2)
           | valString # _ \<Rightarrow>
               (case ValAddressFromBech32 e valString tr1 of
                  (Inl err, tr2) \<Rightarrow> (Some (DecodeError err), tr2)
                | (Inr validator, tr2) \<Rightarrow>
                    (case Invoke clientCtx AggregatePrevote
                            (QueryAggregatePrevoteRequest (valAddressString e validator)) tr2 of
                       (Inl err, tr3) \<Rightarrow> (Some (ServiceError err), tr3)
                     | (Inr res, tr3) \<Rightarrow> PrintProto clientCtx res tr3))))"

text \<open>\<open>RunE\<close> of \<open>GetCmdQueryAggregateVote\<close> (lines 296 to 330).\<close>

definition AggregateVote_RunE :: "env \<Rightarrow> string list \<Rightarrow> trace \<Rightarrow> error option \<times> trace" where
  "AggregateVote_RunE e args tr0 =
     (case GetClientQueryContext e tr0 of
        (Inl err, tr1) \<Rightarrow> (Some (ContextError err), tr1)
      | (Inr clientCtx, tr1) \<Rightarrow>
          (case args of
             [] \<Rightarrow>
               (case Invoke clientCtx AggregateVotes QueryAggregateVotesRequest tr1 of
                  (Inl err, tr2) \<Rightarrow> (Some (ServiceError err), tr2)
                | (Inr res, tr2) \<Rightarrow> PrintProto clientCtx res tr2)
           | valString # _ \<Rightarrow>
               (case ValAddressFromBech32 e valString tr1 of
                  (Inl err, tr2) \<Rightarrow> (Some (DecodeError err), tr2)
                | (Inr validator, tr2) \<Rightarrow>
                    (case Invoke clientCtx AggregateVote
                            (QueryAggregateVoteRequest (valAddressString e validator)) tr2 of
                       (Inl err, tr3) \<Rightarrow> (Some (ServiceError err), tr3)
                     | (Inr res, tr3) \<Rightarrow> PrintProto clientCtx res tr3))))"

subsection \<open>The commands\<close>

record command =
  Use :: string
  Args :: positional_args
  RunE :: "env \<Rightarrow> string list \<Rightarrow> trace \<Rightarrow> error option \<times> trace"

definition GetCmdQueryExchangeRates :: command where
  "GetCmdQueryExchangeRates =
     \<lparr>Use = ''exchange-rates [denom]'', Args = RangeArgs 0 1, RunE = ExchangeRates_RunE\<rparr>"

definition GetCmdQueryActives :: command where
  "GetCmdQueryActives = \<lparr>Use = ''actives'', Args = NoArgs, RunE = Actives_RunE\<rparr>"

definition GetCmdQueryParams :: command where
  "GetCmdQueryParams = \<lparr>Use = ''params'', Args = NoArgs, RunE = Params_RunE\<rparr>"

definition GetCmdQueryFeederDelegation :: command where
  "GetCmdQueryFeederDelegation =
     \<lparr>Use = ''feeder [validator]'', Args = ExactArgs 1, RunE = FeederDelegation_RunE\<rparr>"

definition GetCmdQueryMissCounter :: command where
  "GetCmdQueryMissCounter =
     \<lparr>Use = ''miss [validator]'', Args = ExactArgs 1, RunE = MissCounter_RunE\<rparr>"

definition GetCmdQueryAggregatePrevote :: command where
  "GetCmdQueryAggregatePrevote =
     \<lparr>Use = ''aggregate-prevotes [validator]'', Args = RangeArgs 0 1,
      RunE = AggregatePrevote_RunE\<rparr>"

definition GetCmdQueryAggregateVote :: command where
  "GetCmdQueryAggregateVote =
     \<lparr>Use = ''aggregate-votes [validator]'', Args = RangeArgs 0 1,
      RunE = AggregateVote_RunE\<rparr>"

text \<open>The sub-commands that \<open>GetQueryCmd\<close> adds, in the order of \<open>AddCommand\<close>.\<close>

definition GetQueryCmd :: "command list" where
  "GetQueryCmd =
     [GetCmdQueryExchangeRates, GetCmdQueryActives, GetCmdQueryParams,
      GetCmdQueryFeederDelegation, GetCmdQueryMissCounter,
      GetCmdQueryAggregatePrevote, GetCmdQueryAggregateVote]"

subsection \<open>Running a command\<close>

text \<open>
  Modelled from the spec: cobra itself is not among the source files. The spec's table of
  positional arguments (0; exactly 1; 0 or 1) and its sentence that a wrong argument count
  is an \<open>ArgumentError\<close> "enforced before any decoding or network call" give the meaning of
  the three validators the commands declare: \<open>NoArgs\<close> rejects any argument, \<open>ExactArgs n\<close>
  any count other than \<open>n\<close>, \<open>RangeArgs lo hi\<close> any count outside \<open>lo..hi\<close>.
\<close>

fun ValidateArgs :: "positional_args \<Rightarrow> string list \<Rightarrow> error option" where
  "ValidateArgs NoArgs args =
     (if length args > 0 then Some (ArgumentError NoArgs (length args)) else None)"
| "ValidateArgs (ExactArgs n) args =
     (if length args \<noteq> n then Some (ArgumentError (ExactArgs n) (length args)) else None)"
| "ValidateArgs (RangeArgs lo hi) args =
     (if length args < lo \<or> length args > hi
      then Some (ArgumentError (RangeArgs lo hi) (length args)) else None)"

text \<open>
  Modelled from the spec: the validator runs first, and \<open>RunE\<close> only when it accepts the
  arguments. An invocation starts with an empty trace.
\<close>

definition execute :: "command \<Rightarrow> env \<Rightarrow> string list \<Rightarrow> error option \<times> trace" where
  "execute c e args =
     (case ValidateArgs (Args c) args of
        Some err \<Rightarrow> (Some err, [])
      | None \<Rightarrow> RunE c e args [])"

subsection \<open>Reading a trace\<close>

text \<open>The remote calls of a trace, in order.\<close>

fun network_calls :: "trace \<Rightarrow> (rpc \<times> request) list" where
  "network_calls [] = []"
| "network_calls (EvInvoke m r # tr) = (m, r) # network_calls tr"
| "network_calls (_ # tr) = network_calls tr"

text \<open>The responses handed to the printer, in order.\<close>

fun printed :: "trace \<Rightarrow> response list" where
  "printed [] = []"
| "printed (EvPrintProto res # tr) = res # printed tr"
| "printed (_ # tr) = printed tr"

text \<open>The strings handed to the address decoder, in order.\<close>

fun decoded :: "trace \<Rightarrow> string list" where
  "decoded [] = []"
| "decoded (EvValAddressFromBech32 s # tr) = s # decoded tr"
| "decoded (_ # tr) = decoded tr"

subsection \<open>A concrete environment\<close>

text \<open>
  A small environment to run the commands in. Its decoder accepts one address in either
  letter case and rejects every other string; its encoder writes lower case; its remote
  service knows the denom \<open>KUJI\<close> only and answers every other call.
\<close>

definition demo_decode :: "string \<Rightarrow> go_error + val_address" where
  "demo_decode s =
     (if s = ''kujiravaloper1qq'' \<or> s = ''KUJIRAVALOPER1QQ'' then Inr (ValAddress [0, 0])
      else Inl ''decoding bech32 failed'')"

definition demo_encode :: "val_address \<Rightarrow> string" where
  "demo_encode v = (case v of ValAddress bs \<Rightarrow> if bs = [0, 0] then ''kujiravaloper1qq'' else [])"

definition demo_invoke :: "rpc \<Rightarrow> request \<Rightarrow> go_error + response" where
  "demo_invoke m r =
     (if m = ExchangeRate \<and> r \<noteq> QueryExchangeRateRequest ''KUJI'' then Inl ''unknown denom''
      else Inr ''response'')"

definition demo_ctx :: client_ctx where
  "demo_ctx = \<lparr>invoke = demo_invoke, printProto = (\<lambda>res. None)\<rparr>"

definition demo_env :: env where
  "demo_env =
     \<lparr>getClientQueryContext = Inr demo_ctx,
      valAddressFromBech32 = demo_decode,
      valAddressString = demo_encode\<rparr>"

definition offline_env :: env where
  "offline_env =
     \<lparr>getClientQueryContext = Inl ''no client context'',
      valAddressFromBech32 = demo_decode,
      valAddressString = demo_encode\<rparr>"

section \<open>Properties\<close>

lemmas collaborator_defs =
  GetClientQueryContext_def ValAddressFromBech32_def Invoke_def PrintProto_def

lemmas demo_defs =
  demo_env_def offline_env_def demo_ctx_def demo_invoke_def demo_decode_def demo_encode_def

lemmas command_defs =
  GetCmdQueryExchangeRates_def GetCmdQueryActives_def GetCmdQueryParams_def
  GetCmdQueryFeederDelegation_def GetCmdQueryMissCounter_def
  GetCmdQueryAggregatePrevote_def GetCmdQueryAggregateVote_def

lemmas RunE_defs =
  ExchangeRates_RunE_def Actives_RunE_def Params_RunE_def FeederDelegation_RunE_def
  MissCounter_RunE_def AggregatePrevote_RunE_def AggregateVote_RunE_def

lemma in_GetQueryCmd:
  "c \<in> set GetQueryCmd \<longleftrightarrow>
     c = GetCmdQueryExchangeRates \<or> c = GetCmdQueryActives \<or> c = GetCmdQueryParams \<or>
     c = GetCmdQueryFeederDelegation \<or> c = GetCmdQueryMissCounter \<or>
     c = GetCmdQueryAggregatePrevote \<or> c = GetCmdQueryAggregateVote"
  by (simp add: GetQueryCmd_def)

text \<open>
  The validators keep the unchecked \<open>args[0]\<close> of the closures away from an empty
  argument list: no command of the group ends in the index panic.
\<close>

lemma execute_never_panics:
  assumes "c \<in> set GetQueryCmd"
  shows "fst (execute c e args) \<noteq> Some IndexOutOfRange"
  using assms unfolding in_GetQueryCmd
  by (elim disjE; cases args;
      simp add: execute_def command_defs RunE_defs collaborator_defs
           split: sum.splits option.splits)

text \<open>
  C1. With the client context acquired, the exchange-rates command run with no positional
  argument issues exactly one remote call, \<open>ExchangeRates\<close> with the empty request; run
  with one positional argument \<open>d\<close> it issues exactly one remote call, \<open>ExchangeRate\<close>
  with the request whose \<open>Denom\<close> is \<open>d\<close> itself, and \<open>d\<close> is never handed to a decoder.
\<close>

theorem exchange_rates_dispatch:
  assumes "getClientQueryContext e = Inr clientCtx"
  shows "network_calls (snd (execute GetCmdQueryExchangeRates e [])) =
           [(ExchangeRates, QueryExchangeRatesRequest)]
       \<and> network_calls (snd (execute GetCmdQueryExchangeRates e [d])) =
           [(ExchangeRate, QueryExchangeRateRequest d)]
       \<and> decoded (snd (execute GetCmdQueryExchangeRates e [d])) = []"
  using assms
  by (simp add: execute_def GetCmdQueryExchangeRates_def ExchangeRates_RunE_def
        collaborator_defs split: sum.splits option.splits)

theorem exchange_rates_dispatch_witness:
  "getClientQueryContext demo_env = Inr demo_ctx
   \<and> network_calls (snd (execute GetCmdQueryExchangeRates demo_env [])) =
       [(ExchangeRates, QueryExchangeRatesRequest)]
   \<and> network_calls (snd (execute GetCmdQueryExchangeRates demo_env ['' kuji ''])) =
       [(ExchangeRate, QueryExchangeRateRequest '' kuji '')]
   \<and> decoded (snd (execute GetCmdQueryExchangeRates demo_env ['' kuji ''])) = []"
  using exchange_rates_dispatch [of demo_env demo_ctx "'' kuji ''"]
  by (simp add: demo_env_def)

text \<open>
  C2. With the client context acquired and a string \<open>s\<close> that the decoder accepts as the
  address \<open>v\<close>, each of feeder, miss, aggregate-prevotes and aggregate-votes run with \<open>s\<close>
  hands \<open>s\<close> to the decoder once and issues one remote call whose request field
  \<open>ValidatorAddr\<close> is the string \<open>valAddressString e v\<close>: the decoded address written back
  as a string, neither the bytes of \<open>v\<close> nor the argument \<open>s\<close> as typed.
\<close>

theorem validator_request_carries_restringified_address:
  assumes "getClientQueryContext e = Inr clientCtx"
      and "valAddressFromBech32 e s = Inr v"
  shows "decoded (snd (execute GetCmdQueryFeederDelegation e [s])) = [s]
       \<and> network_calls (snd (execute GetCmdQueryFeederDelegation e [s])) =
           [(FeederDelegation, QueryFeederDelegationRequest (valAddressString e v))]
       \<and> decoded (snd (execute GetCmdQueryMissCounter e [s])) = [s]
       \<and> network_calls (snd (execute GetCmdQueryMissCounter e [s])) =
           [(MissCounter, QueryMissCounterRequest (valAddressString e v))]
       \<and> decoded (snd (execute GetCmdQueryAggregatePrevote e [s])) = [s]
       \<and> network_calls (snd (execute GetCmdQueryAggregatePrevote e [s])) =
           [(AggregatePrevote, QueryAggregatePrevoteRequest (valAddressString e v))]
       \<and> decoded (snd (execute GetCmdQueryAggregateVote e [s])) = [s]
       \<and> network_calls (snd (execute GetCmdQueryAggregateVote e [s])) =
           [(AggregateVote, QueryAggregateVoteRequest (valAddressString e v))]"
  using assms
  by (simp add: execute_def command_defs RunE_defs collaborator_defs
        split: sum.splits option.splits)

theorem validator_request_carries_restringified_address_witness:
  "getClientQueryContext demo_env = Inr demo_ctx
   \<and> valAddressFromBech32 demo_env ''KUJIRAVALOPER1QQ'' = Inr (ValAddress [0, 0])
   \<and> network_calls
       (snd (execute GetCmdQueryFeederDelegation demo_env [''KUJIRAVALOPER1QQ''])) =
       [(FeederDelegation, QueryFeederDelegationRequest ''kujiravaloper1qq'')]
   \<and> network_calls
       (snd (execute GetCmdQueryAggregateVote demo_env [''KUJIRAVALOPER1QQ''])) =
       [(AggregateVote, QueryAggregateVoteRequest ''kujiravaloper1qq'')]"
  using validator_request_carries_restringified_address
          [of demo_env demo_ctx "''KUJIRAVALOPER1QQ''" "ValAddress [0, 0]"]
  by (simp add: demo_env_def demo_decode_def demo_encode_def)

text \<open>
  C3. With the client context acquired and a string \<open>s\<close> that the decoder rejects with
  \<open>err\<close>, each of feeder, miss, aggregate-prevotes and aggregate-votes run with \<open>s\<close> ends
  with \<open>DecodeError err\<close> right after the decoder call: the query client is never invoked
  and nothing is printed.
\<close>

theorem decode_failure_issues_no_call:
  assumes "getClientQueryContext e = Inr clientCtx"
      and "valAddressFromBech32 e s = Inl err"
  shows "execute GetCmdQueryFeederDelegation e [s] =
           (Some (DecodeError err), [EvGetClientQueryContext, EvValAddressFromBech32 s])
       \<and> network_calls (snd (execute GetCmdQueryFeederDelegation e [s])) = []
       \<and> execute GetCmdQueryMissCounter e [s] =
           (Some (DecodeError err), [EvGetClientQueryContext, EvValAddressFromBech32 s])
       \<and> network_calls (snd (execute GetCmdQueryMissCounter e [s])) = []
       \<and> execute GetCmdQueryAggregatePrevote e [s] =
           (Some (DecodeError err), [EvGetClientQueryContext, EvValAddressFromBech32 s])
       \<and> network_calls (snd (execute GetCmdQueryAggregatePrevote e [s])) = []
       \<and> execute GetCmdQueryAggregateVote e [s] =
           (Some (DecodeError err), [EvGetClientQueryContext, EvValAddressFromBech32 s])
       \<and> network_calls (snd (execute GetCmdQueryAggregateVote e [s])) = []"
  using assms
  by (simp add: execute_def command_defs RunE_defs collaborator_defs)

theorem decode_failure_issues_no_call_witness:
  "getClientQueryContext demo_env = Inr demo_ctx
   \<and> valAddressFromBech32 demo_env ''notavalidaddress'' = Inl ''decoding bech32 failed''
   \<and> execute GetCmdQueryMissCounter demo_env [''notavalidaddress''] =
       (Some (DecodeError ''decoding bech32 failed''),
        [EvGetClientQueryContext, EvValAddressFromBech32 ''notavalidaddress''])
   \<and> network_calls (snd (execute GetCmdQueryMissCounter demo_env [''notavalidaddress''])) = []"
  using decode_failure_issues_no_call
          [of demo_env demo_ctx "''notavalidaddress''" "''decoding bech32 failed''"]
  by (simp add: demo_env_def demo_decode_def)

text \<open>
  C5. With the client context acquired, aggregate-prevotes (aggregate-votes) run with no
  argument issues exactly the list call \<open>AggregatePrevotes\<close> (\<open>AggregateVotes\<close>) with the
  empty request and decodes nothing; run with one argument \<open>s\<close> it hands \<open>s\<close> to the
  decoder and issues the per-validator call \<open>AggregatePrevote\<close> (\<open>AggregateVote\<close>) when
  the decoder accepts \<open>s\<close>, and no call when it rejects \<open>s\<close>. Whatever \<open>s\<close> is, the list
  call is not issued once an argument is present.
\<close>

theorem aggregate_presence_dispatch:
  assumes "getClientQueryContext e = Inr clientCtx"
  shows "network_calls (snd (execute GetCmdQueryAggregatePrevote e [])) =
           [(AggregatePrevotes, QueryAggregatePrevotesRequest)]
       \<and> decoded (snd (execute GetCmdQueryAggregatePrevote e [])) = []
       \<and> decoded (snd (execute GetCmdQueryAggregatePrevote e [s])) = [s]
       \<and> network_calls (snd (execute GetCmdQueryAggregatePrevote e [s])) =
           (case valAddressFromBech32 e s of
              Inl err \<Rightarrow> []
            | Inr v \<Rightarrow> [(AggregatePrevote, QueryAggregatePrevoteRequest (valAddressString e v))])
       \<and> network_calls (snd (execute GetCmdQueryAggregateVote e [])) =
           [(AggregateVotes, QueryAggregateVotesRequest)]
       \<and> decoded (snd (execute GetCmdQueryAggregateVote e [])) = []
       \<and> decoded (snd (execute GetCmdQueryAggregateVote e [s])) = [s]
       \<and> network_calls (snd (execute GetCmdQueryAggregateVote e [s])) =
           (case valAddressFromBech32 e s of
              Inl err \<Rightarrow> []
            | Inr v \<Rightarrow> [(AggregateVote, QueryAggregateVoteRequest (valAddressString e v))])"
  using assms
  by (simp add: execute_def command_defs RunE_defs collaborator_defs
        split: sum.splits option.splits)

theorem aggregate_presence_dispatch_witness:
  "getClientQueryContext demo_env = Inr demo_ctx
   \<and> network_calls (snd (execute GetCmdQueryAggregatePrevote demo_env [])) =
       [(AggregatePrevotes, QueryAggregatePrevotesRequest)]
   \<and> network_calls (snd (execute GetCmdQueryAggregatePrevote demo_env [''kujiravaloper1qq''])) =
       [(AggregatePrevote, QueryAggregatePrevoteRequest ''kujiravaloper1qq'')]
   \<and> network_calls (snd (execute GetCmdQueryAggregateVote demo_env [])) =
       [(AggregateVotes, QueryAggregateVotesRequest)]
   \<and> network_calls (snd (execute GetCmdQueryAggregateVote demo_env [''x''])) = []"
  using aggregate_presence_dispatch [of demo_env demo_ctx "''kujiravaloper1qq''"]
        aggregate_presence_dispatch [of demo_env demo_ctx "''x''"]
  by (simp add: demo_env_def demo_decode_def demo_encode_def)

text \<open>
  C6. actives and params run with any positional argument end with an \<open>ArgumentError\<close>
  and an empty trace: the context is not acquired, nothing is decoded, no remote call is
  issued.
\<close>

theorem actives_params_reject_arguments:
  assumes "args \<noteq> []"
  shows "execute GetCmdQueryActives e args = (Some (ArgumentError NoArgs (length args)), [])
       \<and> execute GetCmdQueryParams e args = (Some (ArgumentError NoArgs (length args)), [])"
  using assms
  by (simp add: execute_def GetCmdQueryActives_def GetCmdQueryParams_def)

theorem actives_params_reject_arguments_witness:
  "[''KUJI''] \<noteq> []
   \<and> execute GetCmdQueryActives demo_env [''KUJI''] = (Some (ArgumentError NoArgs 1), [])
   \<and> execute GetCmdQueryParams demo_env [''KUJI''] = (Some (ArgumentError NoArgs 1), [])"
  using actives_params_reject_arguments [of "[''KUJI'']" demo_env]
  by simp

text \<open>
  C7. Every command of the group issues at most one remote call per invocation. It
  issues exactly one when the argument count is accepted, the client context is acquired
  and every string handed to the address decoder is accepted; otherwise it issues none.
\<close>

theorem at_most_one_network_call:
  assumes "c \<in> set GetQueryCmd"
  shows "length (network_calls (snd (execute c e args))) \<le> 1
       \<and> (length (network_calls (snd (execute c e args))) = 1 \<longleftrightarrow>
            ValidateArgs (Args c) args = None
          \<and> (\<exists>clientCtx. getClientQueryContext e = Inr clientCtx)
          \<and> (\<forall>s \<in> set (decoded (snd (execute c e args))).
                \<exists>v. valAddressFromBech32 e s = Inr v))"
  using assms unfolding in_GetQueryCmd
  by (elim disjE; cases args; cases "tl args";
      simp add: execute_def command_defs RunE_defs collaborator_defs
           split: sum.splits option.splits list.splits)

theorem at_most_one_network_call_witness:
  "GetCmdQueryFeederDelegation \<in> set GetQueryCmd
   \<and> length (network_calls
        (snd (execute GetCmdQueryFeederDelegation demo_env [''kujiravaloper1qq'']))) = 1
   \<and> length (network_calls (snd (execute GetCmdQueryFeederDelegation demo_env [''bad'']))) = 0
   \<and> length (network_calls (snd (execute GetCmdQueryFeederDelegation demo_env []))) = 0
   \<and> length (network_calls
        (snd (execute GetCmdQueryFeederDelegation offline_env [''kujiravaloper1qq'']))) = 0"
  using at_most_one_network_call
          [of GetCmdQueryFeederDelegation demo_env "[''kujiravaloper1qq'']"]
  by (simp add: GetQueryCmd_def execute_def GetCmdQueryFeederDelegation_def
        FeederDelegation_RunE_def collaborator_defs demo_defs)

text \<open>
  C8. For every command of the group: when a string handed to the decoder is rejected
  with \<open>err\<close>, the invocation ends with \<open>DecodeError err\<close> and the decoder call is the last
  thing that happened; when the remote call fails with \<open>err\<close>, the invocation ends with
  \<open>ServiceError err\<close> and the remote call is the last thing that happened. Conversely a
  \<open>DecodeError\<close> or \<open>ServiceError\<close> at the command boundary carries exactly the error of the
  last collaborator call. In all these cases the printer is never called.
\<close>

theorem errors_propagate_unmodified:
  assumes "c \<in> set GetQueryCmd" and "execute c e args = (res, tr)"
  shows "(\<forall>s \<in> set (decoded tr). \<forall>err. valAddressFromBech32 e s = Inl err \<longrightarrow>
            res = Some (DecodeError err)
            \<and> tr = [EvGetClientQueryContext, EvValAddressFromBech32 s])
       \<and> (\<forall>(m, r) \<in> set (network_calls tr). \<forall>clientCtx err.
            getClientQueryContext e = Inr clientCtx \<longrightarrow> invoke clientCtx m r = Inl err \<longrightarrow>
            res = Some (ServiceError err) \<and> last tr = EvInvoke m r \<and> printed tr = [])
       \<and> (\<forall>err. res = Some (DecodeError err) \<longrightarrow>
            (\<exists>s. last tr = EvValAddressFromBech32 s \<and> valAddressFromBech32 e s = Inl err)
            \<and> network_calls tr = [] \<and> printed tr = [])
       \<and> (\<forall>err. res = Some (ServiceError err) \<longrightarrow>
            (\<exists>clientCtx m r. getClientQueryContext e = Inr clientCtx \<and> last tr = EvInvoke m r
               \<and> network_calls tr = [(m, r)] \<and> invoke clientCtx m r = Inl err)
            \<and> printed tr = [])"
  using assms unfolding in_GetQueryCmd
  by (elim disjE; cases args; cases "tl args";
      auto simp add: execute_def command_defs RunE_defs collaborator_defs
           split: sum.splits option.splits list.splits if_splits)

theorem errors_propagate_unmodified_witness:
  "GetCmdQueryExchangeRates \<in> set GetQueryCmd
   \<and> execute GetCmdQueryExchangeRates demo_env [''XYZ''] =
       (Some (ServiceError ''unknown denom''),
        [EvGetClientQueryContext, EvInvoke ExchangeRate (QueryExchangeRateRequest ''XYZ'')])
   \<and> invoke demo_ctx ExchangeRate (QueryExchangeRateRequest ''XYZ'') = Inl ''unknown denom''
   \<and> printed (snd (execute GetCmdQueryExchangeRates demo_env [''XYZ''])) = []"
  using errors_propagate_unmodified
          [of GetCmdQueryExchangeRates demo_env "[''XYZ'']"
              "Some (ServiceError ''unknown denom'')"
              "[EvGetClientQueryContext, EvInvoke ExchangeRate (QueryExchangeRateRequest ''XYZ'')]"]
  by (simp add: GetQueryCmd_def execute_def GetCmdQueryExchangeRates_def
        ExchangeRates_RunE_def collaborator_defs demo_defs)

text \<open>
  C9. For every command of the group and every argument list: when the client context
  cannot be acquired, the closure returns that error with the acquisition as the only
  thing that happened, and the invocation decodes nothing, issues no remote call and
  prints nothing. When the argument count is accepted, the invocation ends with the
  context error.
\<close>

theorem context_failure_comes_first:
  assumes "c \<in> set GetQueryCmd" and "getClientQueryContext e = Inl err"
  shows "RunE c e args [] = (Some (ContextError err), [EvGetClientQueryContext])
       \<and> network_calls (snd (execute c e args)) = []
       \<and> printed (snd (execute c e args)) = []
       \<and> decoded (snd (execute c e args)) = []
       \<and> (ValidateArgs (Args c) args = None \<longrightarrow>
            execute c e args = (Some (ContextError err), [EvGetClientQueryContext]))"
  using assms unfolding in_GetQueryCmd
  by (elim disjE;
      simp add: execute_def command_defs RunE_defs collaborator_defs
           split: sum.splits option.splits)

theorem context_failure_comes_first_witness:
  "GetCmdQueryMissCounter \<in> set GetQueryCmd
   \<and> getClientQueryContext offline_env = Inl ''no client context''
   \<and> ValidateArgs (Args GetCmdQueryMissCounter) [''notavalidaddress''] = None
   \<and> execute GetCmdQueryMissCounter offline_env [''notavalidaddress''] =
       (Some (ContextError ''no client context''), [EvGetClientQueryContext])
   \<and> RunE GetCmdQueryMissCounter offline_env [] [] =
       (Some (ContextError ''no client context''), [EvGetClientQueryContext])"
  using context_failure_comes_first
          [of GetCmdQueryMissCounter offline_env "''no client context''" "[''notavalidaddress'']"]
        context_failure_comes_first
          [of GetCmdQueryMissCounter offline_env "''no client context''" "[]"]
  by (simp add: GetQueryCmd_def GetCmdQueryMissCounter_def offline_env_def)

text \<open>
  C10. The exchange-rates command run with one argument \<open>d\<close>, whatever string \<open>d\<close> is,
  never hands \<open>d\<close> to a decoder and never ends with a \<open>DecodeError\<close> or an
  \<open>ArgumentError\<close>. With the client context acquired it issues exactly the call
  \<open>ExchangeRate\<close> with \<open>Denom = d\<close>, and when the remote service rejects the request with
  \<open>err\<close> the invocation ends with \<open>ServiceError err\<close>.
\<close>

theorem denom_never_rejected_locally:
  "decoded (snd (execute GetCmdQueryExchangeRates e [d])) = []
   \<and> (\<forall>err. fst (execute GetCmdQueryExchangeRates e [d]) \<noteq> Some (DecodeError err))
   \<and> (\<forall>a n. fst (execute GetCmdQueryExchangeRates e [d]) \<noteq> Some (ArgumentError a n))
   \<and> (\<forall>clientCtx. getClientQueryContext e = Inr clientCtx \<longrightarrow>
         network_calls (snd (execute GetCmdQueryExchangeRates e [d])) =
           [(ExchangeRate, QueryExchangeRateRequest d)]
       \<and> (\<forall>err. invoke clientCtx ExchangeRate (QueryExchangeRateRequest d) = Inl err \<longrightarrow>
            execute GetCmdQueryExchangeRates e [d] =
              (Some (ServiceError err),
               [EvGetClientQueryContext, EvInvoke ExchangeRate (QueryExchangeRateRequest d)])))"
  by (auto simp add: execute_def GetCmdQueryExchangeRates_def ExchangeRates_RunE_def
        collaborator_defs split: sum.splits option.splits)

theorem denom_never_rejected_locally_witness:
  "getClientQueryContext demo_env = Inr demo_ctx
   \<and> invoke demo_ctx ExchangeRate (QueryExchangeRateRequest []) = Inl ''unknown denom''
   \<and> network_calls (snd (execute GetCmdQueryExchangeRates demo_env [[]])) =
       [(ExchangeRate, QueryExchangeRateRequest [])]
   \<and> execute GetCmdQueryExchangeRates demo_env [[]] =
       (Some (ServiceError ''unknown denom''),
        [EvGetClientQueryContext, EvInvoke ExchangeRate (QueryExchangeRateRequest [])])"
  using denom_never_rejected_locally [of demo_env "[]"]
  by (simp add: demo_defs)

end
